theory Spec2Isabelle
  imports Main "HOL-Library.Word" "HOL-Library.Char_ord" "HOL-Library.List_Lexorder"
begin

unbundle bit_operations_syntax

section \<open>Go values and outcomes\<close>

text \<open>
  The package under verification is \<^verbatim>\<open>testutil/network/network.go\<close>. A Go byte slice
  is a list of 8-bit characters, a Go \<^verbatim>\<open>error\<close> is its message, and a call either returns
  or panics. The panic value records which call raised it.
\<close>

type_synonym bytes = string

type_synonym error = string

datatype panic =
    PanicErr error
  | MustUnmarshalJSON_panic
  | MustMarshalJSON_panic
  | NilMapAssignment
  | InvalidCoin
  | InvalidCoins

datatype 'a exec = Returns 'a | Panics panic

section \<open>Library values used by the package\<close>

text \<open>
  \<^verbatim>\<open>sdk.Coin\<close> holds a denomination and an arbitrary-precision amount;
  \<^verbatim>\<open>banktypes.Balance\<close> an address string and its coins;
  \<^verbatim>\<open>codectypes.Any\<close> a type URL and the packed bytes;
  \<^verbatim>\<open>authtypes.BaseAccount\<close> the address string, the packed public key and two
  unsigned 64-bit counters.
\<close>

record Coin =
  Denom :: string
  Amount :: int

record Balance =
  bal_Address :: string
  Coins :: "Coin list"

record Any =
  TypeUrl :: string
  Value :: bytes

record BaseAccount =
  Address :: string
  PubKey :: "Any option"
  AccountNumber :: "64 word"
  Sequence :: "64 word"

text \<open>
  \<^verbatim>\<open>keyring.Info\<close>: the two getters the package calls. The public key type is left
  open.
\<close>

record 'pk Info =
  GetAddress :: bytes
  GetPubKey :: 'pk

datatype Language = English

text \<open>
  The keyring is a mutable in-memory store; its state is passed explicitly. Both calls
  return an \<^verbatim>\<open>error\<close> in Go, here the left summand. Arguments follow the Go order:
  \<^verbatim>\<open>NewMnemonic(uid, language, hdPath, bip39Passphrase, algo)\<close> and
  \<^verbatim>\<open>NewAccount(uid, mnemonic, bip39Passphrase, hdPath, algo)\<close>; the algorithm is
  given by its name.
\<close>

record ('kr, 'pk) Keyring =
  NewInMemory :: 'kr
  NewMnemonic :: "'kr \<Rightarrow> string \<Rightarrow> Language \<Rightarrow> string \<Rightarrow> string \<Rightarrow> string
                    \<Rightarrow> error + ('pk Info \<times> string \<times> 'kr)"
  NewAccount :: "'kr \<Rightarrow> string \<Rightarrow> string \<Rightarrow> string \<Rightarrow> string \<Rightarrow> string
                    \<Rightarrow> error + ('pk Info \<times> 'kr)"

text \<open>
  The functions of the SDK whose results depend on registries and global configuration
  are parameters: the denomination check behind \<^verbatim>\<open>sdk.ValidateDenom\<close>, the Bech32
  rendering \<^verbatim>\<open>AccAddress.String\<close>, and \<^verbatim>\<open>codectypes.NewAnyWithValue\<close> on a public
  key and on an account.
\<close>

record 'pk Sdk =
  ValidateDenom :: "string \<Rightarrow> bool"
  AccAddress_String :: "bytes \<Rightarrow> string"
  NewAnyWithValue_PubKey :: "'pk \<Rightarrow> error + Any"
  NewAnyWithValue_Account :: "BaseAccount \<Rightarrow> error + Any"

definition Secp256k1 :: string where
  "Secp256k1 = ''secp256k1''"

definition DefaultBondDenom :: string where
  "DefaultBondDenom = ''stake''"

definition PruningOptionNothing :: string where
  "PruningOptionNothing = ''nothing''"

definition auth_ModuleName :: string where
  "auth_ModuleName = ''auth''"

definition bank_ModuleName :: string where
  "bank_ModuleName = ''bank''"

text \<open>\<^verbatim>\<open>time.Second\<close>, a \<^verbatim>\<open>time.Duration\<close>: signed 64-bit nanoseconds.\<close>

definition Second :: "64 word" where
  "Second = 1000000000"

text \<open>\<^verbatim>\<open>sdk.DefaultPowerReduction\<close> and \<^verbatim>\<open>sdk.TokensFromConsensusPower\<close>.\<close>

definition DefaultPowerReduction :: int where
  "DefaultPowerReduction = 1000000"

definition TokensFromConsensusPower :: "64 word \<Rightarrow> int \<Rightarrow> int" where
  "TokensFromConsensusPower pwr powerReduction = sint pwr * powerReduction"

subsection \<open>Coins\<close>

text \<open>\<^verbatim>\<open>sdk.NewInt\<close> turns an \<^verbatim>\<open>int64\<close> into an arbitrary-precision integer.\<close>

definition NewInt :: "64 word \<Rightarrow> int" where
  "NewInt n = sint n"

text \<open>
  \<^verbatim>\<open>sdk.NewCoin\<close> panics on an invalid denomination or a negative amount.
\<close>

definition NewCoin :: "('pk, 'z) Sdk_scheme \<Rightarrow> string \<Rightarrow> int \<Rightarrow> Coin exec" where
  "NewCoin sdk denom amount =
     (if \<not> ValidateDenom sdk denom \<or> amount < 0 then Panics InvalidCoin
      else Returns \<lparr>Denom = denom, Amount = amount\<rparr>)"

definition removeZeroCoins :: "Coin list \<Rightarrow> Coin list" where
  "removeZeroCoins coins = filter (\<lambda>c. Amount c \<noteq> 0) coins"

text \<open>
  \<^verbatim>\<open>Coins.Sort\<close> orders by denomination, compared bytewise as Go compares strings.
\<close>

definition Coins_Sort :: "Coin list \<Rightarrow> Coin list" where
  "Coins_Sort coins = sort_key Denom coins"

definition sanitizeCoins :: "Coin list \<Rightarrow> Coin list" where
  "sanitizeCoins coins =
     (let newCoins = removeZeroCoins coins in
      if newCoins = [] then [] else Coins_Sort newCoins)"

text \<open>
  \<^verbatim>\<open>Coins.Validate\<close>: every denomination valid, every amount positive, denominations
  strictly increasing (which also excludes duplicates).
\<close>

fun Validate_from :: "(string \<Rightarrow> bool) \<Rightarrow> string \<Rightarrow> Coin list \<Rightarrow> bool" where
  "Validate_from vd lowDenom [] = True"
| "Validate_from vd lowDenom (coin # coins) =
     (vd (Denom coin) \<and> lowDenom < Denom coin \<and> 0 < Amount coin
      \<and> Validate_from vd (Denom coin) coins)"

definition Coins_Validate :: "(string \<Rightarrow> bool) \<Rightarrow> Coin list \<Rightarrow> bool" where
  "Coins_Validate vd coins =
     (case coins of
        [] \<Rightarrow> True
      | coin # rest \<Rightarrow> vd (Denom coin) \<and> 0 < Amount coin \<and> Validate_from vd (Denom coin) rest)"

definition NewCoins :: "('pk, 'z) Sdk_scheme \<Rightarrow> Coin list \<Rightarrow> Coin list exec" where
  "NewCoins sdk coins =
     (let newCoins = sanitizeCoins coins in
      if Coins_Validate (ValidateDenom sdk) newCoins then Returns newCoins
      else Panics InvalidCoins)"

text \<open>
  \<^verbatim>\<open>authtypes.NewBaseAccount\<close> renders the address, packs the public key and panics when
  the packing fails.
\<close>

definition NewBaseAccount ::
  "('pk, 'z) Sdk_scheme \<Rightarrow> bytes \<Rightarrow> 'pk \<Rightarrow> 64 word \<Rightarrow> 64 word \<Rightarrow> BaseAccount exec" where
  "NewBaseAccount sdk address pubKey accountNumber sequence =
     (case NewAnyWithValue_PubKey sdk pubKey of
        Inl err \<Rightarrow> Panics (PanicErr err)
      | Inr any \<Rightarrow>
          Returns \<lparr>Address = AccAddress_String sdk address, PubKey = Some any,
                   AccountNumber = accountNumber, Sequence = sequence\<rparr>)"

section \<open>newGenAccout\<close>

text \<open>
  Both keyring calls panic on error. The two coins are built with the same amount, the
  balance takes the sorted coins, and the account is created with account number and
  sequence \<open>0\<close>. The keyring after the two calls is returned with the pair.
\<close>

definition newGenAccout ::
  "('pk, 'z) Sdk_scheme \<Rightarrow> ('kr, 'pk, 'y) Keyring_scheme \<Rightarrow> 'kr \<Rightarrow> string \<Rightarrow> 64 word
     \<Rightarrow> (BaseAccount \<times> Balance \<times> 'kr) exec" where
  "newGenAccout sdk ko kr name amount =
     (case NewMnemonic ko kr name English [] [] Secp256k1 of
        Inl err \<Rightarrow> Panics (PanicErr err)
      | Inr (info, mnm, kr1) \<Rightarrow>
     (case NewAccount ko kr1 name mnm ''1234'' [] Secp256k1 of
        Inl err \<Rightarrow> Panics (PanicErr err)
      | Inr (_, kr2) \<Rightarrow>
     (case NewCoin sdk (name @ ''token'') (NewInt amount) of
        Panics p \<Rightarrow> Panics p
      | Returns c1 \<Rightarrow>
     (case NewCoin sdk DefaultBondDenom (NewInt amount) of
        Panics p \<Rightarrow> Panics p
      | Returns c2 \<Rightarrow>
     (case NewCoins sdk [c1, c2] of
        Panics p \<Rightarrow> Panics p
      | Returns balances \<Rightarrow>
     (let bal = \<lparr>bal_Address = AccAddress_String sdk (GetAddress info),
                 Coins = Coins_Sort balances\<rparr>
      in case NewBaseAccount sdk (GetAddress info) (GetPubKey info) 0 0 of
           Panics p \<Rightarrow> Panics p
         | Returns acc \<Rightarrow> Returns (acc, bal, kr2)))))))"

section \<open>Genesis state and configuration\<close>

text \<open>
  \<^verbatim>\<open>authtypes.GenesisState\<close> holds the module parameters and the packed accounts;
  \<^verbatim>\<open>banktypes.GenesisState\<close> the balances and, as one opaque component, the fields
  the package never touches (parameters, supply, denomination metadata).
\<close>

record 'ap AuthGenesisState =
  auth_Params :: 'ap
  Accounts :: "Any list"

record 'bp BankGenesisState =
  bank_Other :: 'bp
  Balances :: "Balance list"

text \<open>
  The codec's JSON methods at the two message types the package decodes and encodes.
  \<open>None\<close> is the Go error result.
\<close>

record ('ap, 'bp) Codec =
  UnmarshalJSON_auth :: "bytes \<Rightarrow> 'ap AuthGenesisState option"
  MarshalJSON_auth :: "'ap AuthGenesisState \<Rightarrow> bytes option"
  UnmarshalJSON_bank :: "bytes \<Rightarrow> 'bp BankGenesisState option"
  MarshalJSON_bank :: "'bp BankGenesisState \<Rightarrow> bytes option"

text \<open>The \<^verbatim>\<open>Must\<close> variants panic where the plain ones return an error.\<close>

definition MustUnmarshalJSON_auth ::
  "('ap, 'bp, 'z) Codec_scheme \<Rightarrow> bytes \<Rightarrow> 'ap AuthGenesisState exec" where
  "MustUnmarshalJSON_auth c bz =
     (case UnmarshalJSON_auth c bz of None \<Rightarrow> Panics MustUnmarshalJSON_panic | Some s \<Rightarrow> Returns s)"

definition MustMarshalJSON_auth ::
  "('ap, 'bp, 'z) Codec_scheme \<Rightarrow> 'ap AuthGenesisState \<Rightarrow> bytes exec" where
  "MustMarshalJSON_auth c s =
     (case MarshalJSON_auth c s of None \<Rightarrow> Panics MustMarshalJSON_panic | Some bz \<Rightarrow> Returns bz)"

definition MustUnmarshalJSON_bank ::
  "('ap, 'bp, 'z) Codec_scheme \<Rightarrow> bytes \<Rightarrow> 'bp BankGenesisState exec" where
  "MustUnmarshalJSON_bank c bz =
     (case UnmarshalJSON_bank c bz of None \<Rightarrow> Panics MustUnmarshalJSON_panic | Some s \<Rightarrow> Returns s)"

definition MustMarshalJSON_bank ::
  "('ap, 'bp, 'z) Codec_scheme \<Rightarrow> 'bp BankGenesisState \<Rightarrow> bytes exec" where
  "MustMarshalJSON_bank c s =
     (case MarshalJSON_bank c s of None \<Rightarrow> Panics MustMarshalJSON_panic | Some bz \<Rightarrow> Returns bz)"

text \<open>
  \<^verbatim>\<open>map[string]json.RawMessage\<close>. A Go map value is a reference and may be nil
  (\<open>None\<close>): reading a nil map or a missing key gives the zero value, the nil slice;
  assigning into a nil map panics.
\<close>

type_synonym GenesisState = "(string \<rightharpoonup> bytes) option"

definition mapaccess :: "GenesisState \<Rightarrow> string \<Rightarrow> bytes" where
  "mapaccess gs k =
     (case gs of None \<Rightarrow> [] | Some m \<Rightarrow> (case m k of None \<Rightarrow> [] | Some bz \<Rightarrow> bz))"

definition mapassign :: "GenesisState \<Rightarrow> string \<Rightarrow> bytes \<Rightarrow> GenesisState exec" where
  "mapassign gs k bz =
     (case gs of None \<Rightarrow> Panics NilMapAssignment | Some m \<Rightarrow> Returns (Some (m(k \<mapsto> bz))))"

text \<open>The two-value read \<^verbatim>\<open>v, ok := m[k]\<close>: the entry under a key, if there is one.\<close>

definition mapentry :: "GenesisState \<Rightarrow> string \<Rightarrow> bytes option" where
  "mapentry gs k = (case gs of None \<Rightarrow> None | Some m \<Rightarrow> m k)"

text \<open>
  \<^verbatim>\<open>network.Config\<close>, with the fields \<^verbatim>\<open>DefaultConfig\<close> sets; all other fields keep
  their zero values and are not read by the package. Values of library types the package
  only passes on have the type \<open>'o\<close>. \<^verbatim>\<open>TimeoutCommit\<close> is a \<^verbatim>\<open>time.Duration\<close>,
  \<^verbatim>\<open>NumValidators\<close> a Go \<^verbatim>\<open>int\<close>.
\<close>

record ('ap, 'bp, 'o) Config =
  Codec :: "('ap, 'bp) Codec"
  TxConfig :: 'o
  LegacyAmino :: 'o
  InterfaceRegistry :: 'o
  AccountRetriever :: unit
  AppConstructor :: 'o
  GenesisState :: GenesisState
  TimeoutCommit :: "64 word"
  ChainID :: string
  NumValidators :: "64 word"
  BondDenom :: string
  MinGasPrices :: string
  AccountTokens :: int
  StakingTokens :: int
  BondedTokens :: int
  PruningStrategy :: string
  CleanupDir :: bool
  SigningAlgo :: string
  KeyringOptions :: "'o list"

section \<open>addGenAccounts\<close>

text \<open>
  \<^verbatim>\<open>authtypes.PackAccounts\<close> packs the accounts in order and returns the first error.
\<close>

fun PackAccounts :: "('acc \<Rightarrow> error + Any) \<Rightarrow> 'acc list \<Rightarrow> error + Any list" where
  "PackAccounts pack [] = Inr []"
| "PackAccounts pack (acc # accounts) =
     (case pack acc of
        Inl err \<Rightarrow> Inl err
      | Inr any \<Rightarrow>
          (case PackAccounts pack accounts of
             Inl err \<Rightarrow> Inl err
           | Inr rest \<Rightarrow> Inr (any # rest)))"

text \<open>
  The configuration is passed by value, but its \<^verbatim>\<open>GenesisState\<close> map is shared with
  the caller: the first component of the result is the content of that shared map when
  the call ends, by return or by panic. The second component is what Go returns, the
  configuration together with the error (\<open>None\<close> for \<^verbatim>\<open>nil\<close>), or the panic.
\<close>

definition addGenAccounts ::
  "('acc \<Rightarrow> error + Any) \<Rightarrow> ('ap, 'bp, 'o) Config \<Rightarrow> 'acc list \<Rightarrow> Balance list
     \<Rightarrow> GenesisState \<times> (('ap, 'bp, 'o) Config \<times> error option) exec" where
  "addGenAccounts pack cfg genAccounts genBalances =
     (let gs0 = GenesisState cfg in
      case MustUnmarshalJSON_auth (Codec cfg) (mapaccess gs0 auth_ModuleName) of
        Panics p \<Rightarrow> (gs0, Panics p)
      | Returns authGenState \<Rightarrow>
     (case PackAccounts pack genAccounts of
        Inl err \<Rightarrow> (gs0, Returns (cfg, Some err))
      | Inr accounts \<Rightarrow>
     (case MustMarshalJSON_auth (Codec cfg)
             (authGenState\<lparr>Accounts := Accounts authGenState @ accounts\<rparr>) of
        Panics p \<Rightarrow> (gs0, Panics p)
      | Returns bz \<Rightarrow>
     (case mapassign gs0 auth_ModuleName bz of
        Panics p \<Rightarrow> (gs0, Panics p)
      | Returns gs1 \<Rightarrow>
     (case MustUnmarshalJSON_bank (Codec cfg) (mapaccess gs1 bank_ModuleName) of
        Panics p \<Rightarrow> (gs1, Panics p)
      | Returns bankGenState \<Rightarrow>
     (case MustMarshalJSON_bank (Codec cfg)
             (bankGenState\<lparr>Balances := Balances bankGenState @ genBalances\<rparr>) of
        Panics p \<Rightarrow> (gs1, Panics p)
      | Returns bz' \<Rightarrow>
     (case mapassign gs1 bank_ModuleName bz' of
        Panics p \<Rightarrow> (gs1, Panics p)
      | Returns gs2 \<Rightarrow> (gs2, Returns (cfg\<lparr>GenesisState := gs2\<rparr>, None)))))))))"

section \<open>New\<close>

text \<open>
  \<^verbatim>\<open>testing.T\<close> as far as the package uses it: the cleanups registered, here the
  networks whose \<^verbatim>\<open>Cleanup\<close> was registered. \<^verbatim>\<open>t.Helper()\<close> has no effect on it.
\<close>

record 'net testing_T =
  cleanups :: "'net list"

definition generateKeyring :: "('kr, 'pk, 'y) Keyring_scheme \<Rightarrow> 'net testing_T \<Rightarrow> 'kr" where
  "generateKeyring ko t = (let kb = NewInMemory ko in kb)"

text \<open>
  The loop of \<^verbatim>\<open>New\<close> over the account names, each funded with the literal
  \<^verbatim>\<open>1000000000000\<close>; the keyring is threaded through the iterations.
\<close>

fun New_loop ::
  "('pk, 'z) Sdk_scheme \<Rightarrow> ('kr, 'pk, 'y) Keyring_scheme \<Rightarrow> 'kr \<Rightarrow> string list
     \<Rightarrow> (BaseAccount list \<times> Balance list \<times> 'kr) exec" where
  "New_loop sdk ko kr [] = Returns ([], [], kr)"
| "New_loop sdk ko kr (name # names) =
     (case newGenAccout sdk ko kr name 1000000000000 of
        Panics p \<Rightarrow> Panics p
      | Returns (a, b, kr1) \<Rightarrow>
          (case New_loop sdk ko kr1 names of
             Panics p \<Rightarrow> Panics p
           | Returns (genAuthAccs, genBalances, kr2) \<Rightarrow>
               Returns (a # genAuthAccs, b # genBalances, kr2)))"

text \<open>
  \<^verbatim>\<open>network.New\<close>, the external harness, is the parameter \<open>network_New\<close>. An error
  from \<^verbatim>\<open>addGenAccounts\<close> is raised as a panic. The result is the network, the keyring
  and the test handle with the cleanup registered.
\<close>

definition New ::
  "('pk, 'z) Sdk_scheme \<Rightarrow> ('kr, 'pk, 'y) Keyring_scheme
     \<Rightarrow> ('net testing_T \<Rightarrow> ('ap, 'bp, 'o) Config \<Rightarrow> 'net)
     \<Rightarrow> 'net testing_T \<Rightarrow> ('ap, 'bp, 'o) Config \<Rightarrow> string list
     \<Rightarrow> ('net \<times> 'kr \<times> 'net testing_T) exec" where
  "New sdk ko network_New t config genAccNames =
     (let kr = generateKeyring ko t in
      case New_loop sdk ko kr genAccNames of
        Panics p \<Rightarrow> Panics p
      | Returns (genAuthAccs, genBalances, kr') \<Rightarrow>
     (case snd (addGenAccounts (NewAnyWithValue_Account sdk) config genAuthAccs genBalances) of
        Panics p \<Rightarrow> Panics p
      | Returns (config', Some err) \<Rightarrow> Panics (PanicErr err)
      | Returns (config', None) \<Rightarrow>
          (let net = network_New t config' in
           Returns (net, kr', t\<lparr>cleanups := cleanups t @ [net]\<rparr>))))"

section \<open>DefaultConfig\<close>

text \<open>
  \<^verbatim>\<open>tmrand.Rand.Str\<close> of the imported package \<^verbatim>\<open>tendermint/libs/rand\<close>. The generator is
  the stream of its \<^verbatim>\<open>Int63\<close> draws. Each draw is cut into ten 6-bit groups, lowest
  first; a group of value 62 or 63 is skipped, any other indexes \<open>strChars\<close>.
\<close>

definition strChars :: string where
  "strChars = ''0123456789ABCDEFGHIJKLMNOPQRSTUVWXYZabcdefghijklmnopqrstuvwxyz''"

text \<open>
  The inner loop \<^verbatim>\<open>for i := 0; i < 10; i++\<close>; the first argument counts the iterations
  left. The flag tells whether \<^verbatim>\<open>break MAIN_LOOP\<close> was taken.
\<close>

fun Str_inner :: "nat \<Rightarrow> 64 word \<Rightarrow> int \<Rightarrow> string \<Rightarrow> string \<times> bool" where
  "Str_inner 0 val len chars = (chars, False)"
| "Str_inner (Suc n) val len chars =
     (let v = unat (val AND 0x3f) in
      if 62 \<le> v then Str_inner n (signed_drop_bit 6 val) len chars
      else
        (let chars' = chars @ [strChars ! v] in
         if int (length chars') = len then (chars', True)
         else Str_inner n (signed_drop_bit 6 val) len chars'))"

text \<open>
  The outer loop draws until the string is complete; with a generator that keeps
  producing skipped groups it never ends, which is the value \<open>None\<close>.
\<close>

partial_function (option) Str_loop ::
  "(nat \<Rightarrow> 64 word) \<Rightarrow> nat \<Rightarrow> int \<Rightarrow> string \<Rightarrow> string option" where
  "Str_loop r k len chars =
     (let (chars', finished) = Str_inner 10 (r k) len chars in
      if finished then Some chars' else Str_loop r (Suc k) len chars')"

definition Str :: "(nat \<Rightarrow> 64 word) \<Rightarrow> int \<Rightarrow> string option" where
  "Str r len = (if len \<le> 0 then Some [] else Str_loop r 0 len [])"

text \<open>\<^verbatim>\<open>cosmoscmd.EncodingConfig\<close>.\<close>

record ('ap, 'bp, 'o) EncodingConfig =
  Marshaler :: "('ap, 'bp) Codec"
  enc_TxConfig :: 'o
  Amino :: 'o
  enc_InterfaceRegistry :: 'o

definition Secp256k1Type :: string where
  "Secp256k1Type = ''secp256k1''"

text \<open>
  The chain application package \<^verbatim>\<open>app\<close> and the generator are parameters:
  \<open>encoding\<close> is the value of \<^verbatim>\<open>cosmoscmd.MakeEncodingConfig(app.ModuleBasics)\<close>,
  \<open>DefaultGenesis\<close> is \<^verbatim>\<open>app.ModuleBasics.DefaultGenesis\<close>, \<open>appConstructor\<close> gives the
  closure around \<^verbatim>\<open>app.New\<close> for an encoding, and \<open>r\<close> is \<^verbatim>\<open>tmrand.NewRand()\<close>.
  \<^verbatim>\<open>fmt.Sprintf("0.000006%s", d)\<close> is the concatenation.
\<close>

definition DefaultConfig ::
  "('ap, 'bp, 'o) EncodingConfig \<Rightarrow> (('ap, 'bp) Codec \<Rightarrow> GenesisState)
     \<Rightarrow> (('ap, 'bp, 'o) EncodingConfig \<Rightarrow> 'o) \<Rightarrow> (nat \<Rightarrow> 64 word)
     \<Rightarrow> ('ap, 'bp, 'o) Config option" where
  "DefaultConfig encoding DefaultGenesis appConstructor r =
     (case Str r 6 of
        None \<Rightarrow> None
      | Some s \<Rightarrow>
          Some \<lparr>Codec = Marshaler encoding,
                TxConfig = enc_TxConfig encoding,
                LegacyAmino = Amino encoding,
                InterfaceRegistry = enc_InterfaceRegistry encoding,
                AccountRetriever = (),
                AppConstructor = appConstructor encoding,
                GenesisState = DefaultGenesis (Marshaler encoding),
                TimeoutCommit = 2 * Second,
                ChainID = ''chain-'' @ s,
                NumValidators = 1,
                BondDenom = DefaultBondDenom,
                MinGasPrices = ''0.000006'' @ DefaultBondDenom,
                AccountTokens = TokensFromConsensusPower 1000 DefaultPowerReduction,
                StakingTokens = TokensFromConsensusPower 500 DefaultPowerReduction,
                BondedTokens = TokensFromConsensusPower 100 DefaultPowerReduction,
                PruningStrategy = PruningOptionNothing,
                CleanupDir = True,
                SigningAlgo = Secp256k1Type,
                KeyringOptions = []\<rparr>)"

text \<open>Character classes of ASCII, by byte order.\<close>

definition isDigit :: "char \<Rightarrow> bool" where
  "isDigit c = (CHR ''0'' \<le> c \<and> c \<le> CHR ''9'')"

definition isUpper :: "char \<Rightarrow> bool" where
  "isUpper c = (CHR ''A'' \<le> c \<and> c \<le> CHR ''Z'')"

definition isLower :: "char \<Rightarrow> bool" where
  "isLower c = (CHR ''a'' \<le> c \<and> c \<le> CHR ''z'')"

definition isAlnum :: "char \<Rightarrow> bool" where
  "isAlnum c = (isDigit c \<or> isUpper c \<or> isLower c)"

definition isLowerAlnum :: "char \<Rightarrow> bool" where
  "isLowerAlnum c = (isDigit c \<or> isLower c)"

section \<open>Example instances\<close>

text \<open>
  Concrete library parameters on which the theorems below are exercised. The
  denomination check is the SDK's pattern \<^verbatim>\<open>[a-zA-Z][a-zA-Z0-9/]{2,127}\<close>; the keyring
  keeps the list of names it was asked for and numbers its keys.
\<close>

definition demo_ValidateDenom :: "string \<Rightarrow> bool" where
  "demo_ValidateDenom d =
     (case d of
        [] \<Rightarrow> False
      | c # cs \<Rightarrow> (isUpper c \<or> isLower c) \<and> 2 \<le> length cs \<and> length cs \<le> 127
                  \<and> list_all (\<lambda>x. isAlnum x \<or> x = CHR ''/'') cs)"

definition demo_sdk :: "nat Sdk" where
  "demo_sdk =
     \<lparr>ValidateDenom = demo_ValidateDenom,
      AccAddress_String = (\<lambda>a. ''cosmos1'' @ a),
      NewAnyWithValue_PubKey =
        (\<lambda>pk. Inr \<lparr>TypeUrl = ''/cosmos.crypto.secp256k1.PubKey'', Value = replicate pk CHR ''k''\<rparr>),
      NewAnyWithValue_Account =
        (\<lambda>acc. Inr \<lparr>TypeUrl = ''/cosmos.auth.v1beta1.BaseAccount'', Value = Address acc\<rparr>)\<rparr>"

definition demo_sdk_unsupported :: "nat Sdk" where
  "demo_sdk_unsupported =
     demo_sdk\<lparr>NewAnyWithValue_Account := (\<lambda>acc. Inl ''cannot proto marshal'')\<rparr>"

definition demo_keyring :: "(string list, nat) Keyring" where
  "demo_keyring =
     \<lparr>NewInMemory = [],
      NewMnemonic =
        (\<lambda>kr uid language hdPath passphrase algo.
           if uid = [] then Inl ''empty uid''
           else Inr (\<lparr>GetAddress = uid, GetPubKey = length kr\<rparr>, ''mnemonic of '' @ uid, kr @ [uid])),
      NewAccount =
        (\<lambda>kr uid mnemonic passphrase hdPath algo.
           Inr (\<lparr>GetAddress = uid @ passphrase, GetPubKey = length kr\<rparr>, kr @ [uid]))\<rparr>"

text \<open>
  The account and balance that \<open>newGenAccout\<close> builds for the name \<open>alice\<close> on the
  example keyring.
\<close>

definition demo_alice_acc :: BaseAccount where
  "demo_alice_acc =
     \<lparr>Address = ''cosmos1alice'',
      PubKey = Some \<lparr>TypeUrl = ''/cosmos.crypto.secp256k1.PubKey'', Value = []\<rparr>,
      AccountNumber = 0, Sequence = 0\<rparr>"

definition demo_alice_bal :: Balance where
  "demo_alice_bal =
     \<lparr>bal_Address = ''cosmos1alice'',
      Coins = [\<lparr>Denom = ''alicetoken'', Amount = 1000000000000\<rparr>,
               \<lparr>Denom = ''stake'', Amount = 1000000000000\<rparr>]\<rparr>"

text \<open>
  A base genesis state with one account and one balance already present, the states
  after \<open>alice\<close> is merged in, and a codec that knows the serialised form of exactly
  these states.
\<close>

definition demo_auth0 :: "unit AuthGenesisState" where
  "demo_auth0 =
     \<lparr>auth_Params = (),
      Accounts = [\<lparr>TypeUrl = ''/cosmos.auth.v1beta1.BaseAccount'', Value = ''cosmos1validator''\<rparr>]\<rparr>"

definition demo_auth1 :: "unit AuthGenesisState" where
  "demo_auth1 =
     \<lparr>auth_Params = (),
      Accounts = [\<lparr>TypeUrl = ''/cosmos.auth.v1beta1.BaseAccount'', Value = ''cosmos1validator''\<rparr>,
                  \<lparr>TypeUrl = ''/cosmos.auth.v1beta1.BaseAccount'', Value = ''cosmos1alice''\<rparr>]\<rparr>"

definition demo_bank0 :: "unit BankGenesisState" where
  "demo_bank0 =
     \<lparr>bank_Other = (),
      Balances = [\<lparr>bal_Address = ''cosmos1validator'',
                   Coins = [\<lparr>Denom = ''stake'', Amount = 500\<rparr>]\<rparr>]\<rparr>"

definition demo_bank1 :: "unit BankGenesisState" where
  "demo_bank1 =
     \<lparr>bank_Other = (),
      Balances = [\<lparr>bal_Address = ''cosmos1validator'',
                   Coins = [\<lparr>Denom = ''stake'', Amount = 500\<rparr>]\<rparr>,
                  demo_alice_bal]\<rparr>"

definition demo_codec :: "(unit, unit) Codec" where
  "demo_codec =
     \<lparr>UnmarshalJSON_auth =
        (\<lambda>bz. if bz = ''auth0'' then Some demo_auth0
              else if bz = ''auth1'' then Some demo_auth1 else None),
      MarshalJSON_auth =
        (\<lambda>s. if s = demo_auth0 then Some ''auth0''
             else if s = demo_auth1 then Some ''auth1'' else None),
      UnmarshalJSON_bank =
        (\<lambda>bz. if bz = ''bank0'' then Some demo_bank0
              else if bz = ''bank1'' then Some demo_bank1 else None),
      MarshalJSON_bank =
        (\<lambda>s. if s = demo_bank0 then Some ''bank0''
             else if s = demo_bank1 then Some ''bank1'' else None)\<rparr>"

definition demo_genesis :: "string \<rightharpoonup> bytes" where
  "demo_genesis = [''auth'' \<mapsto> ''auth0'', ''bank'' \<mapsto> ''bank0'', ''staking'' \<mapsto> ''staking0'']"

definition demo_cfg :: "(unit, unit, unit) Config" where
  "demo_cfg =
     \<lparr>Codec = demo_codec, TxConfig = (), LegacyAmino = (), InterfaceRegistry = (),
      AccountRetriever = (), AppConstructor = (), GenesisState = Some demo_genesis,
      TimeoutCommit = 2 * Second, ChainID = ''chain-A00000'', NumValidators = 1,
      BondDenom = DefaultBondDenom, MinGasPrices = ''0.000006stake'',
      AccountTokens = 1000000000, StakingTokens = 500000000, BondedTokens = 100000000,
      PruningStrategy = PruningOptionNothing, CleanupDir = True,
      SigningAlgo = Secp256k1Type, KeyringOptions = []\<rparr>"

text \<open>The same configuration with a bank section that does not decode.\<close>

definition demo_cfg_badbank :: "(unit, unit, unit) Config" where
  "demo_cfg_badbank =
     demo_cfg\<lparr>GenesisState := Some [''auth'' \<mapsto> ''auth0'', ''bank'' \<mapsto> ''not json'']\<rparr>"

text \<open>A harness stand-in: the network handle is the chain identifier it was started with.\<close>

definition demo_network_New :: "string testing_T \<Rightarrow> (unit, unit, unit) Config \<Rightarrow> string" where
  "demo_network_New t cfg = ChainID cfg"

text \<open>
  The number of 6-bit groups among the first \<open>n\<close> of a draw that \<open>Str_inner\<close> does not
  skip.
\<close>

fun usable_groups :: "nat \<Rightarrow> 64 word \<Rightarrow> nat" where
  "usable_groups 0 val = 0"
| "usable_groups (Suc n) val =
     (if 62 \<le> unat (val AND 0x3f) then 0 else 1) + usable_groups n (signed_drop_bit 6 val)"

text \<open>An encoding, a default genesis and a generator whose every draw is \<open>10\<close>.\<close>

definition demo_encoding :: "(unit, unit, unit) EncodingConfig" where
  "demo_encoding =
     \<lparr>Marshaler = demo_codec, enc_TxConfig = (), Amino = (), enc_InterfaceRegistry = ()\<rparr>"

definition demo_DefaultGenesis :: "(unit, unit) Codec \<Rightarrow> GenesisState" where
  "demo_DefaultGenesis c = Some demo_genesis"

definition demo_appConstructor :: "(unit, unit, unit) EncodingConfig \<Rightarrow> unit" where
  "demo_appConstructor e = ()"

definition demo_rand :: "nat \<Rightarrow> 64 word" where
  "demo_rand k = 10"

text \<open>The example configuration after \<open>alice\<close> has been merged in.\<close>

definition demo_cfg_merged :: "(unit, unit, unit) Config" where
  "demo_cfg_merged =
     demo_cfg\<lparr>GenesisState :=
       Some (demo_genesis(auth_ModuleName \<mapsto> ''auth1'', bank_ModuleName \<mapsto> ''bank1''))\<rparr>"

section \<open>Properties of the coins and of newGenAccout\<close>

lemma newGenAccout_Returns:
  "newGenAccout sdk ko kr name amount = Returns (acc, bal, kr') \<longleftrightarrow>
     (\<exists>info mnm kr1 info2 any.
        NewMnemonic ko kr name English [] [] Secp256k1 = Inr (info, mnm, kr1) \<and>
        NewAccount ko kr1 name mnm ''1234'' [] Secp256k1 = Inr (info2, kr') \<and>
        ValidateDenom sdk (name @ ''token'') \<and> ValidateDenom sdk DefaultBondDenom \<and>
        0 \<le> sint amount \<and>
        Coins_Validate (ValidateDenom sdk)
          (sanitizeCoins [\<lparr>Denom = name @ ''token'', Amount = sint amount\<rparr>,
                          \<lparr>Denom = DefaultBondDenom, Amount = sint amount\<rparr>]) \<and>
        NewAnyWithValue_PubKey sdk (GetPubKey info) = Inr any \<and>
        bal = \<lparr>bal_Address = AccAddress_String sdk (GetAddress info),
               Coins = Coins_Sort (sanitizeCoins [\<lparr>Denom = name @ ''token'', Amount = sint amount\<rparr>,
                          \<lparr>Denom = DefaultBondDenom, Amount = sint amount\<rparr>])\<rparr> \<and>
        acc = \<lparr>Address = AccAddress_String sdk (GetAddress info), PubKey = Some any,
               AccountNumber = 0, Sequence = 0\<rparr>)"
  unfolding newGenAccout_def NewCoin_def NewCoins_def NewBaseAccount_def NewInt_def Let_def
  by (auto split: sum.splits exec.splits prod.splits if_splits)





lemma demo_alice:
  "newGenAccout demo_sdk demo_keyring [] ''alice'' 1000000000000 =
     Returns (demo_alice_acc, demo_alice_bal, [''alice'', ''alice''])"
  by (simp add: newGenAccout_def demo_sdk_def demo_keyring_def NewCoin_def NewCoins_def
        NewBaseAccount_def NewInt_def Secp256k1_def DefaultBondDenom_def demo_ValidateDenom_def
        isUpper_def isLower_def isAlnum_def isDigit_def sanitizeCoins_def removeZeroCoins_def
        Coins_Sort_def Coins_Validate_def Let_def demo_alice_acc_def demo_alice_bal_def)

lemma demo_alice_unsupported:
  "newGenAccout demo_sdk_unsupported demo_keyring [] ''alice'' 1000000000000 =
     Returns (demo_alice_acc, demo_alice_bal, [''alice'', ''alice''])"
  by (simp add: newGenAccout_def demo_sdk_unsupported_def demo_sdk_def demo_keyring_def
        NewCoin_def NewCoins_def
        NewBaseAccount_def NewInt_def Secp256k1_def DefaultBondDenom_def demo_ValidateDenom_def
        isUpper_def isLower_def isAlnum_def isDigit_def sanitizeCoins_def removeZeroCoins_def
        Coins_Sort_def Coins_Validate_def Let_def demo_alice_acc_def demo_alice_bal_def)



text \<open>
  Claim C7. Every account that \<open>newGenAccout\<close> returns has account number \<open>0\<close> and
  sequence number \<open>0\<close>.
\<close>

theorem newGenAccout_account_and_sequence_zero:
  "newGenAccout sdk ko kr name amount = Returns (acc, bal, kr') \<Longrightarrow>
     AccountNumber acc = 0 \<and> Sequence acc = 0"
  by (auto simp: newGenAccout_Returns)

theorem newGenAccout_account_and_sequence_zero_witness:
  "AccountNumber demo_alice_acc = 0 \<and> Sequence demo_alice_acc = 0"
  using newGenAccout_account_and_sequence_zero[OF demo_alice] .

section \<open>Properties of addGenAccounts\<close>

lemma module_names_distinct: "auth_ModuleName \<noteq> bank_ModuleName"
  by (simp add: auth_ModuleName_def bank_ModuleName_def)


lemma mapentry_assign_other:
  "mapassign gs k bz = Returns gs' \<Longrightarrow> k' \<noteq> k \<Longrightarrow> mapentry gs' k' = mapentry gs k'"
  by (auto simp: mapassign_def mapentry_def split: option.splits)

lemma addGenAccounts_error_return:
  "addGenAccounts pack cfg accs bals = (gs, Returns (cfg', Some err)) \<Longrightarrow>
     cfg' = cfg \<and> gs = GenesisState cfg \<and> PackAccounts pack accs = Inl err"
  unfolding addGenAccounts_def Let_def
  by (auto split: exec.splits sum.splits)

lemma addGenAccounts_frame:
  assumes "addGenAccounts pack cfg accs bals = (gs, out)"
    and "k \<noteq> auth_ModuleName" and "k \<noteq> bank_ModuleName"
  shows "mapentry gs k = mapentry (GenesisState cfg) k"
  using assms unfolding addGenAccounts_def Let_def
  by (auto split: exec.splits sum.splits dest!: mapentry_assign_other[where k'=k])

lemma addGenAccounts_cfg:
  assumes "addGenAccounts pack cfg accs bals = (gs, Returns (cfg', e))"
  shows "cfg' = cfg\<lparr>GenesisState := gs\<rparr>"
  using assms unfolding addGenAccounts_def Let_def
  by (auto split: exec.splits sum.splits)


lemma addGenAccounts_success:
  assumes gs: "GenesisState cfg = Some m"
    and a0: "UnmarshalJSON_auth (Codec cfg) (mapaccess (GenesisState cfg) auth_ModuleName) = Some a0"
    and pk: "PackAccounts pack accs = Inr packed"
    and ea: "MarshalJSON_auth (Codec cfg) (a0\<lparr>Accounts := Accounts a0 @ packed\<rparr>) = Some bza"
    and b0: "UnmarshalJSON_bank (Codec cfg) (mapaccess (GenesisState cfg) bank_ModuleName) = Some b0"
    and eb: "MarshalJSON_bank (Codec cfg) (b0\<lparr>Balances := Balances b0 @ bals\<rparr>) = Some bzb"
  shows "addGenAccounts pack cfg accs bals =
           (Some (m(auth_ModuleName \<mapsto> bza, bank_ModuleName \<mapsto> bzb)),
            Returns (cfg\<lparr>GenesisState := Some (m(auth_ModuleName \<mapsto> bza, bank_ModuleName \<mapsto> bzb))\<rparr>, None))"
proof -
  have bank1: "mapaccess (Some (m(auth_ModuleName \<mapsto> bza))) bank_ModuleName
                 = mapaccess (GenesisState cfg) bank_ModuleName"
    using module_names_distinct by (simp add: mapaccess_def gs)
  show ?thesis
    unfolding addGenAccounts_def Let_def
    using a0 pk ea b0 eb
    by (simp add: MustUnmarshalJSON_auth_def MustMarshalJSON_auth_def
          MustUnmarshalJSON_bank_def MustMarshalJSON_bank_def mapassign_def gs bank1[unfolded gs])
qed


lemma addGenAccounts_pack_error:
  assumes "UnmarshalJSON_auth (Codec cfg) (mapaccess (GenesisState cfg) auth_ModuleName) = Some a0"
    and "PackAccounts pack accs = Inl err"
  shows "addGenAccounts pack cfg accs bals = (GenesisState cfg, Returns (cfg, Some err))"
  using assms unfolding addGenAccounts_def Let_def
  by (simp add: MustUnmarshalJSON_auth_def)

lemma addGenAccounts_decode_panic_iff:
  "snd (addGenAccounts pack cfg accs bals) = Panics MustUnmarshalJSON_panic \<longleftrightarrow>
     UnmarshalJSON_auth (Codec cfg) (mapaccess (GenesisState cfg) auth_ModuleName) = None \<or>
     (\<exists>a0 packed.
        UnmarshalJSON_auth (Codec cfg) (mapaccess (GenesisState cfg) auth_ModuleName) = Some a0 \<and>
        PackAccounts pack accs = Inr packed \<and>
        MarshalJSON_auth (Codec cfg) (a0\<lparr>Accounts := Accounts a0 @ packed\<rparr>) \<noteq> None \<and>
        GenesisState cfg \<noteq> None \<and>
        UnmarshalJSON_bank (Codec cfg) (mapaccess (GenesisState cfg) bank_ModuleName) = None)"
proof -
  have bank1: "\<And>m bza. mapaccess (Some (m(auth_ModuleName \<mapsto> bza))) bank_ModuleName
                 = mapaccess (Some m) bank_ModuleName"
    using module_names_distinct by (simp add: mapaccess_def)
  show ?thesis
    unfolding addGenAccounts_def Let_def
    by (auto simp: MustUnmarshalJSON_auth_def MustMarshalJSON_auth_def
          MustUnmarshalJSON_bank_def MustMarshalJSON_bank_def mapassign_def bank1
          split: exec.splits sum.splits option.splits)
qed

lemma addGenAccounts_reads_only:
  assumes c: "Codec cfg2 = Codec cfg"
    and n: "(GenesisState cfg2 = None) = (GenesisState cfg = None)"
    and a: "mapaccess (GenesisState cfg2) auth_ModuleName = mapaccess (GenesisState cfg) auth_ModuleName"
    and b: "mapaccess (GenesisState cfg2) bank_ModuleName = mapaccess (GenesisState cfg) bank_ModuleName"
  shows "map_exec snd (snd (addGenAccounts pack cfg2 accs bals))
           = map_exec snd (snd (addGenAccounts pack cfg accs bals)) \<and>
         mapaccess (fst (addGenAccounts pack cfg2 accs bals)) auth_ModuleName
           = mapaccess (fst (addGenAccounts pack cfg accs bals)) auth_ModuleName \<and>
         mapaccess (fst (addGenAccounts pack cfg2 accs bals)) bank_ModuleName
           = mapaccess (fst (addGenAccounts pack cfg accs bals)) bank_ModuleName"
proof -
  have bank1: "\<And>m bza. mapaccess (Some (m(auth_ModuleName \<mapsto> bza))) bank_ModuleName
                 = mapaccess (Some m) bank_ModuleName"
    using module_names_distinct by (simp add: mapaccess_def)
  have auth1: "\<And>m bza. mapaccess (Some (m(auth_ModuleName \<mapsto> bza))) auth_ModuleName = bza"
    by (simp add: mapaccess_def)
  have auth2: "\<And>m bza bzb. mapaccess (Some (m(auth_ModuleName \<mapsto> bza, bank_ModuleName \<mapsto> bzb))) auth_ModuleName = bza"
    using module_names_distinct by (simp add: mapaccess_def)
  have bank2: "\<And>m bzb. mapaccess (Some (m(bank_ModuleName \<mapsto> bzb))) bank_ModuleName = bzb"
    by (simp add: mapaccess_def)
  show ?thesis
  proof (cases "GenesisState cfg")
    case None
    with n have n2: "GenesisState cfg2 = None" by simp
    show ?thesis
      unfolding addGenAccounts_def Let_def c None n2
      by (simp add: mapassign_def split: exec.splits sum.splits)
  next
    case (Some m)
    with n obtain m2 where s2: "GenesisState cfg2 = Some m2" by auto
    from a b have a': "mapaccess (Some m2) auth_ModuleName = mapaccess (Some m) auth_ModuleName"
      and b': "mapaccess (Some m2) bank_ModuleName = mapaccess (Some m) bank_ModuleName"
      by (simp_all add: Some s2)
    show ?thesis
      unfolding addGenAccounts_def Let_def c Some s2 a'
      by (simp add: mapassign_def bank1 auth1 auth2 bank2 b' a' split: exec.splits sum.splits)
  qed
qed

lemma demo_merge:
  "addGenAccounts (NewAnyWithValue_Account demo_sdk) demo_cfg [demo_alice_acc] [demo_alice_bal]
     = (Some (demo_genesis(auth_ModuleName \<mapsto> ''auth1'', bank_ModuleName \<mapsto> ''bank1'')),
        Returns (demo_cfg\<lparr>GenesisState := Some (demo_genesis(auth_ModuleName \<mapsto> ''auth1'', bank_ModuleName \<mapsto> ''bank1''))\<rparr>, None))"
  apply (rule addGenAccounts_success[where ?a0.0 = demo_auth0 and ?b0.0 = demo_bank0
          and packed = "[\<lparr>TypeUrl = ''/cosmos.auth.v1beta1.BaseAccount'', Value = ''cosmos1alice''\<rparr>]"])
  apply (simp_all add: demo_cfg_def demo_codec_def demo_genesis_def mapaccess_def auth_ModuleName_def
      bank_ModuleName_def demo_sdk_def demo_alice_acc_def demo_auth0_def demo_auth1_def
      demo_bank0_def demo_bank1_def demo_alice_bal_def)
  done


lemma demo_merged:
  "addGenAccounts (NewAnyWithValue_Account demo_sdk) demo_cfg [demo_alice_acc] [demo_alice_bal]
     = (GenesisState demo_cfg_merged, Returns (demo_cfg_merged, None))"
  using demo_merge by (simp add: demo_cfg_merged_def)

lemma demo_auth_section:
  "UnmarshalJSON_auth (Codec demo_cfg) (mapaccess (GenesisState demo_cfg) auth_ModuleName)
     = Some demo_auth0"
  by (simp add: demo_cfg_def demo_codec_def demo_genesis_def mapaccess_def auth_ModuleName_def)

lemma demo_auth_section_badbank:
  "UnmarshalJSON_auth (Codec demo_cfg_badbank)
     (mapaccess (GenesisState demo_cfg_badbank) auth_ModuleName) = Some demo_auth0"
  by (simp add: demo_cfg_badbank_def demo_cfg_def demo_codec_def mapaccess_def
        auth_ModuleName_def)

lemma demo_bank_section_badbank:
  "UnmarshalJSON_bank (Codec demo_cfg_badbank)
     (mapaccess (GenesisState demo_cfg_badbank) bank_ModuleName) = None"
  by (simp add: demo_cfg_badbank_def demo_cfg_def demo_codec_def mapaccess_def
        bank_ModuleName_def)

lemma demo_pack_unsupported:
  "PackAccounts (NewAnyWithValue_Account demo_sdk_unsupported) [demo_alice_acc]
     = Inl ''cannot proto marshal''"
  by (simp add: demo_sdk_unsupported_def)

lemma demo_pack:
  "PackAccounts (NewAnyWithValue_Account demo_sdk) [demo_alice_acc]
     = Inr [\<lparr>TypeUrl = ''/cosmos.auth.v1beta1.BaseAccount'', Value = ''cosmos1alice''\<rparr>]"
  by (simp add: demo_sdk_def demo_alice_acc_def)




text \<open>
  Claim C3. In the configuration \<open>addGenAccounts\<close> returns, with or without an error,
  the genesis-state entry under every key other than the account module's and the bank
  module's is the entry of the given configuration, and no other field of the
  configuration has changed.
\<close>

theorem addGenAccounts_other_modules_unchanged:
  assumes "addGenAccounts pack cfg accs bals = (gs, Returns (cfg', e))"
    and "k \<noteq> auth_ModuleName" and "k \<noteq> bank_ModuleName"
  shows "mapentry (GenesisState cfg') k = mapentry (GenesisState cfg) k \<and>
         cfg' = cfg\<lparr>GenesisState := GenesisState cfg'\<rparr>"
proof -
  from addGenAccounts_cfg[OF assms(1)] have c: "cfg' = cfg\<lparr>GenesisState := gs\<rparr>" .
  then have g: "GenesisState cfg' = gs" by simp
  from addGenAccounts_frame[OF assms] have "mapentry gs k = mapentry (GenesisState cfg) k" .
  with c g show ?thesis by simp
qed

theorem addGenAccounts_other_modules_unchanged_witness:
  "mapentry (GenesisState demo_cfg_merged) ''staking'' = Some ''staking0'' \<and>
   mapentry (GenesisState demo_cfg) ''staking'' = Some ''staking0''"
proof -
  have k: "''staking'' \<noteq> auth_ModuleName" "''staking'' \<noteq> bank_ModuleName"
    by (simp_all add: auth_ModuleName_def bank_ModuleName_def)
  have "mapentry (GenesisState demo_cfg) ''staking'' = Some ''staking0''"
    by (simp add: mapentry_def demo_cfg_def demo_genesis_def)
  with addGenAccounts_other_modules_unchanged[OF demo_merged k] show ?thesis by simp
qed

text \<open>
  Claim C9. When \<open>addGenAccounts\<close> returns an error, the configuration it returns is the
  one it was given and the shared genesis-state map holds what it held before the call.
\<close>

theorem addGenAccounts_error_leaves_genesis_state:
  "addGenAccounts pack cfg accs bals = (gs, Returns (cfg', Some err)) \<Longrightarrow>
     cfg' = cfg \<and> gs = GenesisState cfg"
  using addGenAccounts_error_return by blast

theorem addGenAccounts_error_leaves_genesis_state_witness:
  "addGenAccounts (NewAnyWithValue_Account demo_sdk_unsupported) demo_cfg
      [demo_alice_acc] [demo_alice_bal]
     = (GenesisState demo_cfg, Returns (demo_cfg, Some ''cannot proto marshal''))"
proof -
  note r = addGenAccounts_pack_error[OF demo_auth_section demo_pack_unsupported, of "[demo_alice_bal]"]
  from addGenAccounts_error_leaves_genesis_state[OF r] r show ?thesis by simp
qed

text \<open>
  Claim C8, as the code has it. \<open>addGenAccounts\<close> ends in the decode panic of
  \<^verbatim>\<open>MustUnmarshalJSON\<close> exactly when the account section does not decode, or when the
  account section decodes, every new account packs, the merged account section encodes,
  the genesis-state map is not nil, and the bank section does not decode. A bank section
  that does not decode is not reached when packing fails, as the counterexample shows.
\<close>

theorem addGenAccounts_decode_panic_exactly_when:
  "snd (addGenAccounts pack cfg accs bals) = Panics MustUnmarshalJSON_panic \<longleftrightarrow>
     UnmarshalJSON_auth (Codec cfg) (mapaccess (GenesisState cfg) auth_ModuleName) = None \<or>
     (\<exists>a0 packed.
        UnmarshalJSON_auth (Codec cfg) (mapaccess (GenesisState cfg) auth_ModuleName) = Some a0 \<and>
        PackAccounts pack accs = Inr packed \<and>
        MarshalJSON_auth (Codec cfg) (a0\<lparr>Accounts := Accounts a0 @ packed\<rparr>) \<noteq> None \<and>
        GenesisState cfg \<noteq> None \<and>
        UnmarshalJSON_bank (Codec cfg) (mapaccess (GenesisState cfg) bank_ModuleName) = None)"
  by (rule addGenAccounts_decode_panic_iff)

theorem addGenAccounts_decode_panic_exactly_when_witness:
  "snd (addGenAccounts (NewAnyWithValue_Account demo_sdk) demo_cfg_badbank
          [demo_alice_acc] [demo_alice_bal]) = Panics MustUnmarshalJSON_panic"
proof -
  have m: "MarshalJSON_auth (Codec demo_cfg_badbank)
             (demo_auth0\<lparr>Accounts := Accounts demo_auth0 @
                [\<lparr>TypeUrl = ''/cosmos.auth.v1beta1.BaseAccount'', Value = ''cosmos1alice''\<rparr>]\<rparr>) \<noteq> None"
    by (simp add: demo_cfg_badbank_def demo_cfg_def demo_codec_def demo_auth0_def demo_auth1_def)
  have g: "GenesisState demo_cfg_badbank \<noteq> None"
    by (simp add: demo_cfg_badbank_def)
  show ?thesis
    using addGenAccounts_decode_panic_exactly_when[of "NewAnyWithValue_Account demo_sdk"
            demo_cfg_badbank "[demo_alice_acc]" "[demo_alice_bal]"]
          demo_auth_section_badbank demo_pack m g demo_bank_section_badbank
    by blast
qed

theorem addGenAccounts_bad_bank_section_not_decoded:
  "UnmarshalJSON_bank (Codec demo_cfg_badbank)
     (mapaccess (GenesisState demo_cfg_badbank) bank_ModuleName) = None \<and>
   snd (addGenAccounts (NewAnyWithValue_Account demo_sdk_unsupported) demo_cfg_badbank
          [demo_alice_acc] [demo_alice_bal])
     = Returns (demo_cfg_badbank, Some ''cannot proto marshal'')"
  using addGenAccounts_pack_error[OF demo_auth_section_badbank demo_pack_unsupported,
          of "[demo_alice_bal]"] demo_bank_section_badbank
  by simp

section \<open>Properties of New\<close>



lemma New_pack_error:
  assumes "New_loop sdk ko (generateKeyring ko t) names = Returns (accs, bals, kr')"
    and "snd (addGenAccounts (NewAnyWithValue_Account sdk) cfg accs bals) = Returns (cfg', Some err)"
  shows "New sdk ko nn t cfg names = Panics (PanicErr err)"
  using assms unfolding New_def Let_def by simp

lemma New_addGenAccounts_panic:
  assumes "New_loop sdk ko (generateKeyring ko t) names = Returns (accs, bals, kr')"
    and "snd (addGenAccounts (NewAnyWithValue_Account sdk) cfg accs bals) = Panics p"
  shows "New sdk ko nn t cfg names = Panics p"
  using assms unfolding New_def Let_def by simp


lemma demo_generateKeyring: "generateKeyring demo_keyring t = []"
  by (simp add: generateKeyring_def demo_keyring_def)



lemma demo_New_loop_unsupported:
  "New_loop demo_sdk_unsupported demo_keyring (generateKeyring demo_keyring t) [''alice'']
     = Returns ([demo_alice_acc], [demo_alice_bal], [''alice'', ''alice''])"
  by (simp add: demo_generateKeyring demo_alice_unsupported)

text \<open>
  Claim C4, as the code has it. When the account section decodes and packing a new
  account fails, \<open>addGenAccounts\<close> returns that error as an ordinary error value together
  with the unchanged configuration, which is a return and not the decode panic; \<open>New\<close>
  does not return it but raises it as a panic. The counterexample is a call of
  \<open>New\<close> that ends in this panic.
\<close>

theorem pack_error_returned_by_addGenAccounts_raised_by_New:
  assumes dec: "UnmarshalJSON_auth (Codec cfg) (mapaccess (GenesisState cfg) auth_ModuleName) = Some a0"
    and loop: "New_loop sdk ko (generateKeyring ko t) names = Returns (accs, bals, kr')"
    and pk: "PackAccounts (NewAnyWithValue_Account sdk) accs = Inl err"
  shows "addGenAccounts (NewAnyWithValue_Account sdk) cfg accs bals
           = (GenesisState cfg, Returns (cfg, Some err)) \<and>
         snd (addGenAccounts (NewAnyWithValue_Account sdk) cfg accs bals)
           \<noteq> Panics MustUnmarshalJSON_panic \<and>
         New sdk ko network_New t cfg names = Panics (PanicErr err)"
proof -
  note r = addGenAccounts_pack_error[OF dec pk, of bals]
  then have "snd (addGenAccounts (NewAnyWithValue_Account sdk) cfg accs bals)
               = Returns (cfg, Some err)" by simp
  from New_pack_error[OF loop this] r show ?thesis by simp
qed

theorem pack_error_returned_by_addGenAccounts_raised_by_New_witness:
  "addGenAccounts (NewAnyWithValue_Account demo_sdk_unsupported) demo_cfg
      [demo_alice_acc] [demo_alice_bal]
     = (GenesisState demo_cfg, Returns (demo_cfg, Some ''cannot proto marshal'')) \<and>
   New demo_sdk_unsupported demo_keyring demo_network_New \<lparr>cleanups = []\<rparr> demo_cfg [''alice'']
     = Panics (PanicErr ''cannot proto marshal'')"
  using pack_error_returned_by_addGenAccounts_raised_by_New[OF demo_auth_section
          demo_New_loop_unsupported[of "\<lparr>cleanups = []\<rparr>"] demo_pack_unsupported,
          where network_New = demo_network_New]
  by blast

theorem New_panics_on_pack_error:
  "PackAccounts (NewAnyWithValue_Account demo_sdk_unsupported) [demo_alice_acc]
     = Inl ''cannot proto marshal'' \<and>
   New demo_sdk_unsupported demo_keyring demo_network_New \<lparr>cleanups = []\<rparr> demo_cfg [''alice'']
     = Panics (PanicErr ''cannot proto marshal'')"
proof -
  have "snd (addGenAccounts (NewAnyWithValue_Account demo_sdk_unsupported) demo_cfg
               [demo_alice_acc] [demo_alice_bal])
          = Returns (demo_cfg, Some ''cannot proto marshal'')"
    by (simp add: addGenAccounts_pack_error[OF demo_auth_section demo_pack_unsupported])
  from New_pack_error[OF demo_New_loop_unsupported this] demo_pack_unsupported
  show ?thesis by simp
qed



section \<open>Properties of DefaultConfig\<close>

lemma length_strChars: "length strChars = 62"
  by (simp add: strChars_def)

lemma strChars_alnum: "list_all isAlnum strChars"
  by (simp add: strChars_def isAlnum_def isDigit_def isUpper_def isLower_def)

lemma strChars_nth_alnum: "v < 62 \<Longrightarrow> isAlnum (strChars ! v)"
  using strChars_alnum length_strChars by (simp add: list_all_length)

lemma Str_inner_sound:
  "Str_inner n val len chars = (chars', fin) \<Longrightarrow> list_all isAlnum chars \<Longrightarrow>
     list_all isAlnum chars' \<and> (fin \<longrightarrow> int (length chars') = len)"
proof (induction n val len chars rule: Str_inner.induct)
  case (1 val len chars)
  then show ?case by simp
next
  case (2 n val len chars)
  show ?case
  proof (cases "62 \<le> unat (val AND 0x3f)")
    case True
    with 2 show ?thesis by (simp add: Let_def)
  next
    case False
    then have al: "list_all isAlnum (chars @ [strChars ! unat (val AND 0x3f)])"
      using 2(4) strChars_nth_alnum by simp
    show ?thesis
    proof (cases "int (length (chars @ [strChars ! unat (val AND 0x3f)])) = len")
      case True
      with False 2(3) al show ?thesis by (auto simp: Let_def)
    next
      case neq: False
      from 2(3) False neq have "Str_inner n (signed_drop_bit 6 val) len (chars @ [strChars ! unat (val AND 0x3f)]) = (chars', fin)"
        by (simp add: Let_def)
      from 2(2)[OF refl _ refl _ this al] False neq show ?thesis by simp
    qed
  qed
qed

lemma Str_loop_sound:
  assumes "Str_loop r k len chars = Some s"
  shows "list_all isAlnum chars \<longrightarrow> list_all isAlnum s \<and> int (length s) = len"
proof (rule Str_loop.raw_induct[OF _ assms,
        where P = "\<lambda>r k len chars s. list_all isAlnum chars \<longrightarrow> list_all isAlnum s \<and> int (length s) = len"])
  fix lp :: "(nat \<Rightarrow> 64 word) \<Rightarrow> nat \<Rightarrow> int \<Rightarrow> string \<Rightarrow> string option"
    and r k len chars s
  assume IH: "\<And>r k len chars s. lp r k len chars = Some s \<Longrightarrow>
                 list_all isAlnum chars \<longrightarrow> list_all isAlnum s \<and> int (length s) = len"
    and body: "(let (chars', finished) = Str_inner 10 (r k) len chars
                in if finished then Some chars' else lp r (Suc k) len chars') = Some s"
  show "list_all isAlnum chars \<longrightarrow> list_all isAlnum s \<and> int (length s) = len"
  proof
    assume al: "list_all isAlnum chars"
    obtain chars' fin where inner: "Str_inner 10 (r k) len chars = (chars', fin)"
      by (cases "Str_inner 10 (r k) len chars")
    from Str_inner_sound[OF inner al]
    have al': "list_all isAlnum chars'" and f: "fin \<longrightarrow> int (length chars') = len"
      by simp_all
    show "list_all isAlnum s \<and> int (length s) = len"
    proof (cases fin)
      case True
      with body inner have "s = chars'" by simp
      with al' f True show ?thesis by simp
    next
      case False
      with body inner have "lp r (Suc k) len chars' = Some s" by simp
      from IH[OF this] al' show ?thesis by simp
    qed
  qed
qed

lemma Str_sound:
  "Str r 6 = Some s \<Longrightarrow> length s = 6 \<and> list_all isAlnum s"
  using Str_loop_sound[of r 0 6 "[]" s] by (auto simp: Str_def)

lemma Str_inner_progress:
  "Str_inner n val len chars = (chars', fin) \<Longrightarrow> int (length chars) < len \<Longrightarrow>
     (if len \<le> int (length chars + usable_groups n val) then fin
      else \<not> fin \<and> length chars' = length chars + usable_groups n val)"
proof (induction n val len chars rule: Str_inner.induct)
  case (1 val len chars)
  then show ?case by auto
next
  case (2 n val len chars)
  let ?v = "unat (val AND 0x3f)"
  show ?case
  proof (cases "62 \<le> ?v")
    case True
    with 2(3) have "Str_inner n (signed_drop_bit 6 val) len chars = (chars', fin)"
      by (simp add: Let_def)
    from 2(1)[OF refl True this 2(4)] True show ?thesis by simp
  next
    case False
    let ?cs = "chars @ [strChars ! ?v]"
    show ?thesis
    proof (cases "int (length ?cs) = len")
      case True
      with False 2(3) have "fin" by (auto simp: Let_def)
      with True False show ?thesis by auto
    next
      case neq: False
      with 2(4) have lt: "int (length ?cs) < len" by simp
      from 2(3) False neq have "Str_inner n (signed_drop_bit 6 val) len ?cs = (chars', fin)"
        by (simp add: Let_def)
      from 2(2)[OF refl False refl neq this lt] False show ?thesis by simp
    qed
  qed
qed

lemma Str_loop_returns:
  "int (length chars) < len \<Longrightarrow>
   len \<le> int (length chars + (\<Sum>j<n. usable_groups 10 (r (k + j)))) \<Longrightarrow>
   \<exists>s. Str_loop r k len chars = Some s"
proof (induction n arbitrary: k chars)
  case 0
  then show ?case by simp
next
  case (Suc n)
  obtain chars' fin where inner: "Str_inner 10 (r k) len chars = (chars', fin)"
    by (cases "Str_inner 10 (r k) len chars")
  note prog = Str_inner_progress[OF inner Suc.prems(1)]
  show ?case
  proof (cases "len \<le> int (length chars + usable_groups 10 (r k))")
    case True
    with prog have fin by simp
    with inner have "Str_loop r k len chars = Some chars'"
      by (subst Str_loop.simps) simp
    then show ?thesis by blast
  next
    case False
    with prog have nf: "\<not> fin" and len': "length chars' = length chars + usable_groups 10 (r k)"
      by simp_all
    from False len' have lt: "int (length chars') < len" by simp
    have "(\<Sum>j<Suc n. usable_groups 10 (r (k + j)))
            = usable_groups 10 (r k) + (\<Sum>j<n. usable_groups 10 (r (Suc k + j)))"
      using sum.lessThan_Suc_shift[of "\<lambda>j. usable_groups 10 (r (k + j))" n] by simp
    with len' have e: "length chars' + (\<Sum>j<n. usable_groups 10 (r (Suc k + j)))
                        = length chars + (\<Sum>j<Suc n. usable_groups 10 (r (k + j)))"
      by simp
    from Suc.prems(2)
    have "len \<le> int (length chars' + (\<Sum>j<n. usable_groups 10 (r (Suc k + j))))"
      unfolding e .
    from Suc.IH[OF lt this] obtain s where "Str_loop r (Suc k) len chars' = Some s" by blast
    with inner nf have "Str_loop r k len chars = Some s"
      by (subst Str_loop.simps) simp
    then show ?thesis by blast
  qed
qed

lemma Str_returns:
  assumes "6 \<le> (\<Sum>j<n. usable_groups 10 (r j))"
  shows "\<exists>s. Str r 6 = Some s"
proof -
  from assms have "int 6 \<le> int (\<Sum>j<n. usable_groups 10 (r j))"
    by (simp only: of_nat_le_iff)
  then have "(6::int) \<le> int (length ([]::string) + (\<Sum>j<n. usable_groups 10 (r (0 + j))))"
    by (simp del: of_nat_sum)
  from Str_loop_returns[where chars = "[]" and len = 6 and n = n and r = r and k = 0, OF _ this]
  show ?thesis by (simp add: Str_def)
qed

lemma demo_inner: "Str_inner 10 (demo_rand 0) 6 [] = (''A00000'', True)"
  by code_simp

lemma demo_usable: "usable_groups 10 (demo_rand 0) = 10"
  by code_simp

lemma demo_Str: "Str demo_rand 6 = Some ''A00000''"
  unfolding Str_def
  apply (subst Str_loop.simps)
  apply (simp add: demo_inner)
  done

lemma DefaultConfig_Some:
  "DefaultConfig enc dg ac r = Some cfg \<Longrightarrow>
     \<exists>s. Str r 6 = Some s \<and> ChainID cfg = ''chain-'' @ s \<and>
         NumValidators cfg = 1 \<and> PruningStrategy cfg = PruningOptionNothing \<and>
         CleanupDir cfg \<and> TimeoutCommit cfg = 2 * Second \<and> BondDenom cfg = DefaultBondDenom"
  unfolding DefaultConfig_def by (auto split: option.splits)

lemma DefaultConfig_returns:
  assumes "6 \<le> (\<Sum>j<n. usable_groups 10 (r j))"
  shows "\<exists>cfg. DefaultConfig enc dg ac r = Some cfg"
  using Str_returns[OF assms] unfolding DefaultConfig_def by auto

lemma demo_DefaultConfig_eq:
  "DefaultConfig demo_encoding demo_DefaultGenesis demo_appConstructor demo_rand = Some demo_cfg"
  by (simp add: DefaultConfig_def demo_Str demo_cfg_def demo_encoding_def
        demo_DefaultGenesis_def demo_appConstructor_def DefaultBondDenom_def
        TokensFromConsensusPower_def DefaultPowerReduction_def)

text \<open>
  Claim C5. Every configuration \<open>DefaultConfig\<close> returns has validator count \<open>1\<close>,
  pruning strategy \<open>''nothing''\<close>, cleanup set, and a commit timeout of two seconds,
  that is \<open>2000000000\<close> nanoseconds.
\<close>

theorem DefaultConfig_fixed_fields:
  assumes "DefaultConfig encoding DefaultGenesis appConstructor r = Some cfg"
  shows "NumValidators cfg = 1 \<and> PruningStrategy cfg = ''nothing'' \<and> CleanupDir cfg \<and>
         TimeoutCommit cfg = 2 * Second \<and> sint (TimeoutCommit cfg) = 2000000000"
  using DefaultConfig_Some[OF assms]
  by (auto simp: PruningOptionNothing_def Second_def)

theorem DefaultConfig_fixed_fields_witness:
  "DefaultConfig demo_encoding demo_DefaultGenesis demo_appConstructor demo_rand = Some demo_cfg \<and>
   NumValidators demo_cfg = 1 \<and> PruningStrategy demo_cfg = ''nothing'' \<and> CleanupDir demo_cfg \<and>
   sint (TimeoutCommit demo_cfg) = 2000000000"
  using DefaultConfig_fixed_fields[OF demo_DefaultConfig_eq] demo_DefaultConfig_eq by blast

text \<open>
  Claim C6, as the code has it. The chain identifier of every configuration
  \<open>DefaultConfig\<close> returns is \<open>''chain-''\<close> followed by exactly six characters, each a
  digit or an upper-case or lower-case ASCII letter; and \<open>DefaultConfig\<close> returns as
  soon as the generator's draws hold six usable 6-bit groups. The counterexample is a
  draw that yields an upper-case letter.
\<close>

theorem DefaultConfig_ChainID_six_alphanumerics:
  "(DefaultConfig encoding DefaultGenesis appConstructor r = Some cfg \<longrightarrow>
      (\<exists>s. ChainID cfg = ''chain-'' @ s \<and> length s = 6 \<and> list_all isAlnum s)) \<and>
   (6 \<le> (\<Sum>j<n. usable_groups 10 (r j)) \<longrightarrow>
      (\<exists>cfg'. DefaultConfig encoding DefaultGenesis appConstructor r = Some cfg'))"
proof (intro conjI impI)
  assume "DefaultConfig encoding DefaultGenesis appConstructor r = Some cfg"
  from DefaultConfig_Some[OF this] obtain s where
    "Str r 6 = Some s" "ChainID cfg = ''chain-'' @ s" by blast
  with Str_sound[of r s]
  show "\<exists>s. ChainID cfg = ''chain-'' @ s \<and> length s = 6 \<and> list_all isAlnum s" by blast
next
  assume "6 \<le> (\<Sum>j<n. usable_groups 10 (r j))"
  from DefaultConfig_returns[OF this]
  show "\<exists>cfg'. DefaultConfig encoding DefaultGenesis appConstructor r = Some cfg'" .
qed

theorem DefaultConfig_ChainID_six_alphanumerics_witness:
  "DefaultConfig demo_encoding demo_DefaultGenesis demo_appConstructor demo_rand = Some demo_cfg \<and>
   6 \<le> (\<Sum>j<1. usable_groups 10 (demo_rand j)) \<and>
   ChainID demo_cfg = ''chain-'' @ ''A00000'' \<and> length ''A00000'' = 6 \<and>
   list_all isAlnum ''A00000''"
proof -
  have u: "6 \<le> (\<Sum>j<1. usable_groups 10 (demo_rand j))"
    by (simp add: demo_usable)
  from DefaultConfig_ChainID_six_alphanumerics[of demo_encoding demo_DefaultGenesis
         demo_appConstructor demo_rand demo_cfg 1] demo_DefaultConfig_eq u
  obtain s where s: "ChainID demo_cfg = ''chain-'' @ s" "length s = 6" "list_all isAlnum s"
    by blast
  from s(1) have "s = ''A00000''" by (simp add: demo_cfg_def)
  with s demo_DefaultConfig_eq u show ?thesis by simp
qed

theorem DefaultConfig_ChainID_upper_case:
  "map_option ChainID
     (DefaultConfig demo_encoding demo_DefaultGenesis demo_appConstructor demo_rand)
     = Some (''chain-'' @ ''A00000'') \<and>
   \<not> list_all isLowerAlnum ''A00000''"
  by (simp add: demo_DefaultConfig_eq demo_cfg_def isLowerAlnum_def isDigit_def isLower_def)

end
